theory Spec2Isabelle
  imports Complex_Main
begin

section \<open>Shared JavaScript notions\<close>

text \<open>
  A reading of the clock (\<^verbatim>\<open>new Date()\<close>, \<^verbatim>\<open>new Date().toISOString()\<close>) is a
  parameter of the function that reads it. Values typed \<^verbatim>\<open>any\<close> or \<^verbatim>\<open>unknown\<close> are JSON-like
  trees; \<open>JError m\<close> is an instance of \<^verbatim>\<open>Error\<close> with message \<open>m\<close>.
  JavaScript numbers that hold milliseconds or counts are integers here.
\<close>

type_synonym timestamp = string

datatype js_any =
    JNull
  | JNum real
  | JStr string
  | JArr "js_any list"
  | JObj "(string \<times> js_any) list"
  | JError string

text \<open>
  The host's table of repeating timers: \<^verbatim>\<open>setInterval\<close> registers a callback period
  under a fresh handle, \<^verbatim>\<open>clearInterval\<close> removes the handle. Every entry of
  \<open>live\<close> is a timer that keeps firing. A handle is an object or a positive number, so
  a ref that holds one is truthy: \<^verbatim>\<open>if (intervalRef.current)\<close> is \<open>intervalRef h \<noteq> None\<close>.
\<close>

type_synonym timer_id = nat

record timer_table =
  live :: "(timer_id \<times> int) list"
  fresh_id :: timer_id

definition no_timers :: timer_table where
  "no_timers = \<lparr>live = [], fresh_id = 1\<rparr>"

definition setInterval :: "int \<Rightarrow> timer_table \<Rightarrow> timer_id \<times> timer_table" where
  "setInterval period t =
     (fresh_id t, t\<lparr>live := live t @ [(fresh_id t, period)], fresh_id := Suc (fresh_id t)\<rparr>)"

definition clearInterval :: "timer_id \<Rightarrow> timer_table \<Rightarrow> timer_table" where
  "clearInterval h t = t\<lparr>live := filter (\<lambda>e. fst e \<noteq> h) (live t)\<rparr>"

section \<open>Live-data hook (src/hooks/useRealTimeData.ts)\<close>

datatype trend_kind = up | down | stable

record DataStreamConfig =
  interval :: int
  volatility :: real
  trend :: trend_kind

text \<open>\<^verbatim>\<open>Partial<DataStreamConfig>\<close>: \<open>None\<close> is an absent key.\<close>

record DataStreamConfig_partial =
  interval_opt :: "int option"
  volatility_opt :: "real option"
  trend_opt :: "trend_kind option"

text \<open>The object spread \<^verbatim>\<open>{ ...c, ...p }\<close>: a key present in \<open>p\<close> wins.\<close>

definition spread_config :: "DataStreamConfig \<Rightarrow> DataStreamConfig_partial \<Rightarrow> DataStreamConfig" where
  "spread_config c p =
     \<lparr>interval = (case interval_opt p of None \<Rightarrow> interval c | Some v \<Rightarrow> v),
      volatility = (case volatility_opt p of None \<Rightarrow> volatility c | Some v \<Rightarrow> v),
      trend = (case trend_opt p of None \<Rightarrow> trend c | Some v \<Rightarrow> v)\<rparr>"

text \<open>The field \<^verbatim>\<open>keywords\<close> is \<open>keywordList\<close>: the source name is reserved.\<close>

record RealTimeDataState =
  revenue :: "js_any list"
  users :: "js_any list"
  performance :: js_any
  keywordList :: "js_any list"
  lastUpdated :: timestamp
  isLive :: bool

text \<open>
  What one call of \<^verbatim>\<open>generateFreshData\<close> obtains from the four generators and the
  clock (the generators draw from \<^verbatim>\<open>Math.random\<close>).
\<close>

record fresh_bundle =
  newRevenue :: "js_any list"
  newUsers :: "js_any list"
  newPerformance :: js_any
  newKeywords :: "js_any list"
  generated_at :: timestamp

text \<open>
  The hook instance: the React state \<open>data\<close> (with every queued \<^verbatim>\<open>setData\<close> updater
  applied), the two refs, the host's timers, and the number of pending
  \<^verbatim>\<open>setTimeout(startStream, 100)\<close> callbacks.
\<close>

record stream_hook =
  data :: RealTimeDataState
  intervalRef :: "timer_id option"
  configRef :: DataStreamConfig
  timers :: timer_table
  pending_restarts :: nat

definition useRealTimeData :: "timestamp \<Rightarrow> DataStreamConfig_partial \<Rightarrow> stream_hook" where
  "useRealTimeData now config =
     \<lparr>data = \<lparr>revenue = [], users = [], performance = JObj [], keywordList = [],
              lastUpdated = now, isLive = False\<rparr>,
      intervalRef = None,
      configRef = spread_config \<lparr>interval = 5000, volatility = 0.3, trend = stable\<rparr> config,
      timers = no_timers,
      pending_restarts = 0\<rparr>"

definition setData :: "(RealTimeDataState \<Rightarrow> RealTimeDataState) \<Rightarrow> stream_hook \<Rightarrow> stream_hook" where
  "setData f h = h\<lparr>data := f (data h)\<rparr>"

definition generateFreshData :: "fresh_bundle \<Rightarrow> stream_hook \<Rightarrow> stream_hook" where
  "generateFreshData b h =
     setData (\<lambda>prev. \<lparr>revenue = newRevenue b, users = newUsers b, performance = newPerformance b,
                      keywordList = newKeywords b, lastUpdated = generated_at b,
                      isLive = isLive prev\<rparr>) h"

definition startStream :: "fresh_bundle \<Rightarrow> stream_hook \<Rightarrow> stream_hook" where
  "startStream b h =
     (if intervalRef h \<noteq> None then h
      else
        let h1 = setData (\<lambda>prev. prev\<lparr>isLive := True\<rparr>) h;
            h2 = generateFreshData b h1;
            (handle, t) = setInterval (interval (configRef h2)) (timers h2)
        in h2\<lparr>timers := t, intervalRef := Some handle\<rparr>)"

definition stopStream :: "stream_hook \<Rightarrow> stream_hook" where
  "stopStream h =
     (let h1 = (case intervalRef h of
                  Some handle \<Rightarrow> h\<lparr>timers := clearInterval handle (timers h), intervalRef := None\<rparr>
                | None \<Rightarrow> h)
      in setData (\<lambda>prev. prev\<lparr>isLive := False\<rparr>) h1)"

text \<open>
  \<^verbatim>\<open>toggleStream\<close> and \<^verbatim>\<open>updateConfig\<close> read \<^verbatim>\<open>data.isLive\<close> from the render that
  created the callback: \<open>rendered\<close> is that render's \<open>data\<close>. Two calls with no render
  in between share it.
\<close>

definition toggleStream :: "RealTimeDataState \<Rightarrow> fresh_bundle \<Rightarrow> stream_hook \<Rightarrow> stream_hook" where
  "toggleStream rendered b h = (if isLive rendered then stopStream h else startStream b h)"

definition updateConfig :: "RealTimeDataState \<Rightarrow> DataStreamConfig_partial \<Rightarrow> stream_hook \<Rightarrow> stream_hook" where
  "updateConfig rendered newConfig h =
     (let h1 = h\<lparr>configRef := spread_config (configRef h) newConfig\<rparr>
      in if isLive rendered
         then (let h2 = stopStream h1 in h2\<lparr>pending_restarts := Suc (pending_restarts h2)\<rparr>)
         else h1)"

text \<open>A pending \<^verbatim>\<open>setTimeout(startStream, 100)\<close> callback runs.\<close>

definition restart_fires :: "fresh_bundle \<Rightarrow> stream_hook \<Rightarrow> stream_hook" where
  "restart_fires b h =
     (if pending_restarts h = 0 then h
      else startStream b (h\<lparr>pending_restarts := pending_restarts h - 1\<rparr>))"

definition refresh :: "fresh_bundle \<Rightarrow> stream_hook \<Rightarrow> stream_hook" where
  "refresh b h = generateFreshData b h"

text \<open>
  The hook's state is coherent when the flag, the ref and the host's timers agree:
  live exactly when the ref holds a handle, and the host runs that timer and no other.
\<close>

definition coherent :: "stream_hook \<Rightarrow> bool" where
  "coherent h \<longleftrightarrow>
     (isLive (data h) \<longleftrightarrow> intervalRef h \<noteq> None) \<and>
     map fst (live (timers h)) = (case intervalRef h of None \<Rightarrow> [] | Some handle \<Rightarrow> [handle])"

section \<open>Dashboard data model (src/types/index.ts)\<close>

text \<open>
  Field names follow the interfaces. Where a name is reserved, is a constant of the
  library, or is shared by two interfaces, the field carries a prefix (\<open>card_\<close>,
  \<open>sale_\<close>, \<open>ua_\<close>, \<open>perf_\<close>, \<open>resp_\<close>, \<open>loading_\<close>).
\<close>

datatype change_type = increase | decrease | neutral

record MetricCard =
  card_id :: string
  title :: string
  card_value :: "real + string"
  card_unit :: "string option"
  change :: "real option"
  changeType :: "change_type option"
  icon :: "string option"
  color :: "string option"

record SalesData =
  sale_id :: string
  sale_date :: string
  amount :: int
  product :: string
  sale_category :: string
  sale_region :: string

record UserAnalytics =
  ua_id :: string
  ua_date :: string
  activeUsers :: int
  newUsers :: int
  pageViews :: int
  sessionDuration :: int

record PerformanceMetrics =
  perf_id :: string
  perf_timestamp :: string
  cpuUsage :: int
  memoryUsage :: int
  responseTime :: int
  errorRate :: real

datatype response_status = success | failure

record 'a ApiResponse =
  resp_data :: 'a
  resp_status :: response_status
  resp_message :: "string option"
  resp_timestamp :: timestamp

record LoadingState =
  isLoading :: bool
  loading_error :: "string option"
  lastUpdated :: "timestamp option"

record DateRange =
  range_start :: string
  range_end :: string

record FilterOptions =
  dateRange :: DateRange
  category :: "string option"
  region :: "string option"

text \<open>
  \<^verbatim>\<open>Partial<FilterOptions>\<close>: the outer \<open>None\<close> is an absent key; for the two optional
  fields a present key may still hold \<^verbatim>\<open>undefined\<close> (the inner \<open>None\<close>).
\<close>

record FilterOptions_partial =
  dateRange_opt :: "DateRange option"
  category_opt :: "string option option"
  region_opt :: "string option option"

datatype theme_kind = Light | Dark | Auto

datatype layout_kind = Grid | List

record DashboardConfig =
  refreshInterval :: int
  autoRefresh :: bool
  theme :: theme_kind
  layout :: layout_kind

record DashboardConfig_partial =
  refreshInterval_opt :: "int option"
  autoRefresh_opt :: "bool option"
  theme_opt :: "theme_kind option"
  layout_opt :: "layout_kind option"

record AppError =
  code :: string
  message :: string
  details :: "js_any option"
  timestamp :: timestamp

section \<open>Dashboard context (src/contexts/DashboardContext.tsx)\<close>

record DashboardState =
  metrics :: "MetricCard list"
  salesData :: "SalesData list"
  userAnalytics :: "UserAnalytics list"
  performanceMetrics :: "PerformanceMetrics list"
  loading :: LoadingState
  filters :: FilterOptions
  config :: DashboardConfig
  error :: "AppError option"

datatype DashboardState_key =
  key_metrics | key_salesData | key_userAnalytics | key_performanceMetrics
  | key_loading | key_filters | key_config | key_error

datatype DashboardAction =
    SET_LOADING DashboardState_key bool
  | SET_ERROR "AppError option"
  | SET_METRICS "MetricCard list"
  | SET_SALES_DATA "SalesData list"
  | SET_USER_ANALYTICS "UserAnalytics list"
  | SET_PERFORMANCE_METRICS "PerformanceMetrics list"
  | SET_FILTERS FilterOptions
  | SET_CONFIG DashboardConfig_partial
  | UPDATE_LAST_UPDATED string

text \<open>
  The initial state reads the clock twice: \<open>thirty_days_ago\<close> and \<open>today\<close> are the two
  ISO dates it computes.
\<close>

definition initialState :: "string \<Rightarrow> string \<Rightarrow> DashboardState" where
  "initialState thirty_days_ago today =
     \<lparr>metrics = [], salesData = [], userAnalytics = [], performanceMetrics = [],
      loading = \<lparr>isLoading = False, loading_error = None, lastUpdated = None\<rparr>,
      filters = \<lparr>dateRange = \<lparr>range_start = thirty_days_ago, range_end = today\<rparr>,
                 category = None, region = None\<rparr>,
      config = \<lparr>refreshInterval = 300000, autoRefresh = True, theme = Light, layout = Grid\<rparr>,
      error = None\<rparr>"

definition spread_dashboard_config :: "DashboardConfig \<Rightarrow> DashboardConfig_partial \<Rightarrow> DashboardConfig" where
  "spread_dashboard_config c p =
     \<lparr>refreshInterval = (case refreshInterval_opt p of None \<Rightarrow> refreshInterval c | Some v \<Rightarrow> v),
      autoRefresh = (case autoRefresh_opt p of None \<Rightarrow> autoRefresh c | Some v \<Rightarrow> v),
      theme = (case theme_opt p of None \<Rightarrow> theme c | Some v \<Rightarrow> v),
      layout = (case layout_opt p of None \<Rightarrow> layout c | Some v \<Rightarrow> v)\<rparr>"

definition spread_filters :: "FilterOptions \<Rightarrow> FilterOptions_partial \<Rightarrow> FilterOptions" where
  "spread_filters f p =
     \<lparr>dateRange = (case dateRange_opt p of None \<Rightarrow> dateRange f | Some v \<Rightarrow> v),
      category = (case category_opt p of None \<Rightarrow> category f | Some v \<Rightarrow> v),
      region = (case region_opt p of None \<Rightarrow> region f | Some v \<Rightarrow> v)\<rparr>"

text \<open>
  \<^verbatim>\<open>action.payload?.message || null\<close>: an absent payload and an empty message both
  give \<^verbatim>\<open>null\<close>.
\<close>

definition message_or_null :: "AppError option \<Rightarrow> string option" where
  "message_or_null payload =
     (case payload of
        None \<Rightarrow> None
      | Some e \<Rightarrow> (if message e = [] then None else Some (message e)))"

text \<open>The reducer; \<open>now\<close> is the clock at the time it runs (read by \<open>SET_METRICS\<close>).\<close>

fun dashboardReducer :: "timestamp \<Rightarrow> DashboardState \<Rightarrow> DashboardAction \<Rightarrow> DashboardState" where
  "dashboardReducer now state (SET_LOADING k b) =
     state\<lparr>loading := (loading state)\<lparr>isLoading := b\<rparr>\<rparr>"
| "dashboardReducer now state (SET_ERROR payload) =
     state\<lparr>error := payload,
           loading := (loading state)\<lparr>isLoading := False, loading_error := message_or_null payload\<rparr>\<rparr>"
| "dashboardReducer now state (SET_METRICS payload) =
     state\<lparr>metrics := payload,
           loading := (loading state)\<lparr>isLoading := False, loading_error := None,
                                      lastUpdated := Some now\<rparr>\<rparr>"
| "dashboardReducer now state (SET_SALES_DATA payload) = state\<lparr>salesData := payload\<rparr>"
| "dashboardReducer now state (SET_USER_ANALYTICS payload) = state\<lparr>userAnalytics := payload\<rparr>"
| "dashboardReducer now state (SET_PERFORMANCE_METRICS payload) =
     state\<lparr>performanceMetrics := payload\<rparr>"
| "dashboardReducer now state (SET_FILTERS payload) = state\<lparr>filters := payload\<rparr>"
| "dashboardReducer now state (SET_CONFIG payload) =
     state\<lparr>config := spread_dashboard_config (config state) payload\<rparr>"
| "dashboardReducer now state (UPDATE_LAST_UPDATED payload) =
     state\<lparr>loading := (loading state)\<lparr>lastUpdated := Some payload\<rparr>\<rparr>"

text \<open>
  An awaited call either yields a value (\<open>Inr\<close>) or throws (\<open>Inl\<close>, the thrown
  value); an \<^verbatim>\<open>async\<close> function's promise resolves (\<open>Inr\<close>) or rejects (\<open>Inl\<close>).
  \<^verbatim>\<open>try { body } catch (e) { handler }\<close> is \<open>try_catch\<close>.
\<close>

definition try_catch :: "js_any + 'a \<Rightarrow> (js_any \<Rightarrow> js_any + 'a) \<Rightarrow> js_any + 'a" where
  "try_catch body handler = (case body of Inl thrown \<Rightarrow> handler thrown | Inr v \<Rightarrow> Inr v)"

text \<open>The calls into the service layer, with their arguments.\<close>

datatype api_call =
    GetMetrics
  | GetSalesData FilterOptions
  | GetUserAnalytics
  | GetPerformanceMetrics

text \<open>How each of the four service calls of one round ends.\<close>

record remote_outcomes =
  getMetrics_outcome :: "js_any + MetricCard list ApiResponse"
  getSalesData_outcome :: "js_any + SalesData list ApiResponse"
  getUserAnalytics_outcome :: "js_any + UserAnalytics list ApiResponse"
  getPerformanceMetrics_outcome :: "js_any + PerformanceMetrics list ApiResponse"

text \<open>\<^verbatim>\<open>handleError\<close> also logs to the console, which changes no state.\<close>

definition handleError :: "timestamp \<Rightarrow> js_any \<Rightarrow> string \<Rightarrow> DashboardState \<Rightarrow> DashboardState" where
  "handleError now err ctx s =
     (let appError =
            \<lparr>code = ''DASHBOARD_ERROR'',
             message = (case err of JError m \<Rightarrow> m | _ \<Rightarrow> ''An unexpected error occurred''),
             details = Some (JObj [(''context'', JStr ctx), (''error'', err)]),
             timestamp = now\<rparr>
      in dashboardReducer now s (SET_ERROR (Some appError)))"

text \<open>
  Each fetcher is an \<^verbatim>\<open>async\<close> function: \<open>_begin\<close> is what it does before its
  \<^verbatim>\<open>await\<close> (dispatches, and the service call it issues), \<open>_settle\<close> what it does
  when the awaited call has ended, on the state of that moment. A callback reads
  \<^verbatim>\<open>state.filters\<close> from the render that created it: \<open>rendered\<close> is that render's state.
\<close>

definition fetchMetrics_begin :: "timestamp \<Rightarrow> DashboardState \<Rightarrow> DashboardState \<times> api_call" where
  "fetchMetrics_begin now s = (dashboardReducer now s (SET_LOADING key_metrics True), GetMetrics)"

definition fetchMetrics_settle ::
  "timestamp \<Rightarrow> js_any + MetricCard list ApiResponse \<Rightarrow> DashboardState \<Rightarrow> js_any + DashboardState" where
  "fetchMetrics_settle now outcome s =
     try_catch
       (case outcome of
          Inl thrown \<Rightarrow> Inl thrown
        | Inr response \<Rightarrow> Inr (dashboardReducer now s (SET_METRICS (resp_data response))))
       (\<lambda>err. Inr (handleError now err ''fetchMetrics'' s))"

definition fetchSalesData_begin :: "DashboardState \<Rightarrow> DashboardState \<Rightarrow> DashboardState \<times> api_call" where
  "fetchSalesData_begin rendered s = (s, GetSalesData (filters rendered))"

definition fetchSalesData_settle ::
  "timestamp \<Rightarrow> js_any + SalesData list ApiResponse \<Rightarrow> DashboardState \<Rightarrow> js_any + DashboardState" where
  "fetchSalesData_settle now outcome s =
     try_catch
       (case outcome of
          Inl thrown \<Rightarrow> Inl thrown
        | Inr response \<Rightarrow> Inr (dashboardReducer now s (SET_SALES_DATA (resp_data response))))
       (\<lambda>err. Inr (handleError now err ''fetchSalesData'' s))"

definition fetchUserAnalytics_begin :: "DashboardState \<Rightarrow> DashboardState \<times> api_call" where
  "fetchUserAnalytics_begin s = (s, GetUserAnalytics)"

definition fetchUserAnalytics_settle ::
  "timestamp \<Rightarrow> js_any + UserAnalytics list ApiResponse \<Rightarrow> DashboardState \<Rightarrow> js_any + DashboardState" where
  "fetchUserAnalytics_settle now outcome s =
     try_catch
       (case outcome of
          Inl thrown \<Rightarrow> Inl thrown
        | Inr response \<Rightarrow> Inr (dashboardReducer now s (SET_USER_ANALYTICS (resp_data response))))
       (\<lambda>err. Inr (handleError now err ''fetchUserAnalytics'' s))"

definition fetchPerformanceMetrics_begin :: "DashboardState \<Rightarrow> DashboardState \<times> api_call" where
  "fetchPerformanceMetrics_begin s = (s, GetPerformanceMetrics)"

definition fetchPerformanceMetrics_settle ::
  "timestamp \<Rightarrow> js_any + PerformanceMetrics list ApiResponse \<Rightarrow> DashboardState \<Rightarrow> js_any + DashboardState" where
  "fetchPerformanceMetrics_settle now outcome s =
     try_catch
       (case outcome of
          Inl thrown \<Rightarrow> Inl thrown
        | Inr response \<Rightarrow>
            Inr (dashboardReducer now s (SET_PERFORMANCE_METRICS (resp_data response))))
       (\<lambda>err. Inr (handleError now err ''fetchPerformanceMetrics'' s))"

text \<open>The four fetchers, indexed by the dataset they fetch.\<close>

datatype dataset_kind = MetricsKind | SalesKind | UserAnalyticsKind | PerformanceKind

fun fetch_begin :: "dataset_kind \<Rightarrow> timestamp \<Rightarrow> DashboardState \<Rightarrow> DashboardState \<Rightarrow> DashboardState \<times> api_call" where
  "fetch_begin MetricsKind now rendered s = fetchMetrics_begin now s"
| "fetch_begin SalesKind now rendered s = fetchSalesData_begin rendered s"
| "fetch_begin UserAnalyticsKind now rendered s = fetchUserAnalytics_begin s"
| "fetch_begin PerformanceKind now rendered s = fetchPerformanceMetrics_begin s"

fun fetch_settle :: "dataset_kind \<Rightarrow> timestamp \<Rightarrow> remote_outcomes \<Rightarrow> DashboardState \<Rightarrow> js_any + DashboardState" where
  "fetch_settle MetricsKind now r s = fetchMetrics_settle now (getMetrics_outcome r) s"
| "fetch_settle SalesKind now r s = fetchSalesData_settle now (getSalesData_outcome r) s"
| "fetch_settle UserAnalyticsKind now r s =
     fetchUserAnalytics_settle now (getUserAnalytics_outcome r) s"
| "fetch_settle PerformanceKind now r s =
     fetchPerformanceMetrics_settle now (getPerformanceMetrics_outcome r) s"

text \<open>What a fetcher's service call threw, if it threw, and the fetcher's own name.\<close>

definition thrown_of :: "js_any + 'a \<Rightarrow> js_any option" where
  "thrown_of outcome = (case outcome of Inl thrown \<Rightarrow> Some thrown | Inr v \<Rightarrow> None)"

fun thrown_value :: "dataset_kind \<Rightarrow> remote_outcomes \<Rightarrow> js_any option" where
  "thrown_value MetricsKind r = thrown_of (getMetrics_outcome r)"
| "thrown_value SalesKind r = thrown_of (getSalesData_outcome r)"
| "thrown_value UserAnalyticsKind r = thrown_of (getUserAnalytics_outcome r)"
| "thrown_value PerformanceKind r = thrown_of (getPerformanceMetrics_outcome r)"

fun fetcher_name :: "dataset_kind \<Rightarrow> string" where
  "fetcher_name MetricsKind = ''fetchMetrics''"
| "fetcher_name SalesKind = ''fetchSalesData''"
| "fetcher_name UserAnalyticsKind = ''fetchUserAnalytics''"
| "fetcher_name PerformanceKind = ''fetchPerformanceMetrics''"

text \<open>One fetcher run alone: nothing else is dispatched between its two halves.\<close>

definition fetchDataset ::
  "dataset_kind \<Rightarrow> timestamp \<Rightarrow> timestamp \<Rightarrow> remote_outcomes \<Rightarrow> DashboardState \<Rightarrow> js_any + DashboardState" where
  "fetchDataset k started settled r s = fetch_settle k settled r (fst (fetch_begin k started s s))"

text \<open>
  \<^verbatim>\<open>refreshAllData\<close> starts the four fetchers in order, then awaits
  \<^verbatim>\<open>Promise.all\<close> of their promises. The calls end in an order the code does not
  control: \<open>schedule\<close> lists the fetchers in the order their calls end, each with the
  clock at that moment. A fetcher whose promise rejects leaves the state as it is and
  its thrown value is collected; \<^verbatim>\<open>Promise.all\<close> rejects with the first of these.
\<close>

definition refreshAllData_begin ::
  "timestamp \<Rightarrow> DashboardState \<Rightarrow> DashboardState \<Rightarrow> DashboardState \<times> api_call list" where
  "refreshAllData_begin now rendered s =
     (let (s1, c1) = fetchMetrics_begin now s;
          (s2, c2) = fetchSalesData_begin rendered s1;
          (s3, c3) = fetchUserAnalytics_begin s2;
          (s4, c4) = fetchPerformanceMetrics_begin s3
      in (s4, [c1, c2, c3, c4]))"

fun settle_all ::
  "remote_outcomes \<Rightarrow> (dataset_kind \<times> timestamp) list \<Rightarrow> DashboardState \<Rightarrow> DashboardState \<times> js_any list" where
  "settle_all r [] s = (s, [])"
| "settle_all r ((k, now) # rest) s =
     (case fetch_settle k now r s of
        Inr s' \<Rightarrow> settle_all r rest s'
      | Inl thrown \<Rightarrow> (let (s', rejections) = settle_all r rest s in (s', thrown # rejections)))"

text \<open>The state a fetcher leaves behind when its call has ended.\<close>

definition settled_state :: "dataset_kind \<Rightarrow> timestamp \<Rightarrow> remote_outcomes \<Rightarrow> DashboardState \<Rightarrow> DashboardState" where
  "settled_state k now r s = (case fetch_settle k now r s of Inr s' \<Rightarrow> s' | Inl thrown \<Rightarrow> s)"

definition promise_all :: "js_any list \<Rightarrow> js_any + unit" where
  "promise_all rejections = (case rejections of [] \<Rightarrow> Inr () | thrown # _ \<Rightarrow> Inl thrown)"

record refresh_result =
  final_state :: DashboardState
  calls_issued :: "api_call list"
  returned_promise :: "js_any + unit"

definition refreshAllData ::
  "timestamp \<Rightarrow> DashboardState \<Rightarrow> remote_outcomes \<Rightarrow> (dataset_kind \<times> timestamp) list \<Rightarrow> DashboardState \<Rightarrow> refresh_result" where
  "refreshAllData now rendered r schedule s =
     (let (s0, calls) = refreshAllData_begin now rendered s;
          (s1, rejections) = settle_all r schedule s0
      in \<lparr>final_state = s1, calls_issued = calls, returned_promise = promise_all rejections\<rparr>)"

text \<open>A schedule of one round: each of the four fetchers ends exactly once.\<close>

definition one_round :: "(dataset_kind \<times> timestamp) list \<Rightarrow> bool" where
  "one_round schedule \<longleftrightarrow>
     distinct (map fst schedule) \<and>
     set (map fst schedule) = {MetricsKind, SalesKind, UserAnalyticsKind, PerformanceKind}"

definition updateFilters :: "timestamp \<Rightarrow> DashboardState \<Rightarrow> FilterOptions_partial \<Rightarrow> DashboardState \<Rightarrow> DashboardState" where
  "updateFilters now rendered partial s =
     dashboardReducer now s (SET_FILTERS (spread_filters (filters rendered) partial))"

definition clearError :: "timestamp \<Rightarrow> DashboardState \<Rightarrow> DashboardState" where
  "clearError now s = dashboardReducer now s (SET_ERROR None)"

section \<open>Service layer: the sales request (src/services/api.ts)\<close>

text \<open>
  A request as this code builds it: \<open>headers\<close> lists the headers the code sets (the
  client's configured \<^verbatim>\<open>Content-Type\<close> and what the request interceptor adds), not the
  defaults the HTTP library adds to every request.
\<close>

record http_request =
  http_method :: string
  url :: string
  params :: "(string \<times> string) list"
  headers :: "(string \<times> string) list"

definition apiClient_get :: "string \<Rightarrow> http_request" where
  "apiClient_get u =
     \<lparr>http_method = ''get'', url = u, params = [],
      headers = [(''Content-Type'', ''application/json'')]\<rparr>"

text \<open>
  The request interceptor: \<open>token\<close> is the stored \<^verbatim>\<open>auth_token\<close> (if any),
  \<open>millis\<close> the digits of \<^verbatim>\<open>Date.now()\<close>. It adds headers and nothing else.
\<close>

definition request_interceptor :: "string option \<Rightarrow> string \<Rightarrow> http_request \<Rightarrow> http_request" where
  "request_interceptor token millis req =
     (let req1 = (case token of
                    None \<Rightarrow> req
                  | Some t \<Rightarrow> if t = [] then req
                             else req\<lparr>headers := headers req @ [(''Authorization'', ''Bearer '' @ t)]\<rparr>);
          requestId = http_method req1 @ ''-'' @ url req1 @ ''-'' @ millis
      in req1\<lparr>headers := headers req1 @ [(''X-Request-ID'', requestId)]\<rparr>)"

text \<open>
  The request \<^verbatim>\<open>salesApi.getSalesData(filters)\<close> sends: \<^verbatim>\<open>apiClient.get('/posts')\<close>.
\<close>

definition getSalesData_request :: "FilterOptions option \<Rightarrow> string option \<Rightarrow> string \<Rightarrow> http_request" where
  "getSalesData_request filters_arg token millis =
     request_interceptor token millis (apiClient_get ''/posts'')"

text \<open>The request a service call puts on the wire, for the sales call.\<close>

fun sales_request_of :: "api_call \<Rightarrow> string option \<Rightarrow> string \<Rightarrow> http_request option" where
  "sales_request_of (GetSalesData f) token millis = Some (getSalesData_request (Some f) token millis)"
| "sales_request_of _ token millis = None"

section \<open>The provider and its auto-refresh effect (src/contexts/DashboardContext.tsx)\<close>

text \<open>
  The mounted provider: the reducer's state, the identity of the \<^verbatim>\<open>state.filters\<close>
  object (a new object at each \<open>SET_FILTERS\<close>, which gives \<^verbatim>\<open>refreshAllData\<close> a new
  identity), the \<^verbatim>\<open>interval\<close> handle held by the cleanup of the auto-refresh effect,
  the host's timers, and the service calls issued so far.
\<close>

record provider =
  dash_state :: DashboardState
  filters_identity :: nat
  auto_timer :: "timer_id option"
  host_timers :: timer_table
  calls_log :: "api_call list"

definition effect_deps :: "provider \<Rightarrow> bool \<times> int \<times> nat" where
  "effect_deps p =
     (autoRefresh (config (dash_state p)), refreshInterval (config (dash_state p)),
      filters_identity p)"

definition auto_refresh_effect :: "provider \<Rightarrow> provider" where
  "auto_refresh_effect p =
     (if autoRefresh (config (dash_state p)) \<and> refreshInterval (config (dash_state p)) > 0
      then (let (handle, t) = setInterval (refreshInterval (config (dash_state p))) (host_timers p)
            in p\<lparr>host_timers := t, auto_timer := Some handle\<rparr>)
      else p\<lparr>auto_timer := None\<rparr>)"

definition effect_cleanup :: "provider \<Rightarrow> provider" where
  "effect_cleanup p =
     (case auto_timer p of
        None \<Rightarrow> p
      | Some handle \<Rightarrow> p\<lparr>host_timers := clearInterval handle (host_timers p), auto_timer := None\<rparr>)"

text \<open>
  A render after a state update: when a dependency of the effect changed, the previous
  run's cleanup runs, then the effect.
\<close>

definition commit :: "provider \<Rightarrow> provider \<Rightarrow> provider" where
  "commit before after =
     (if effect_deps after \<noteq> effect_deps before
      then auto_refresh_effect (effect_cleanup after)
      else after)"

definition provider_dispatch :: "timestamp \<Rightarrow> DashboardAction \<Rightarrow> provider \<Rightarrow> provider" where
  "provider_dispatch now a p =
     commit p
       (p\<lparr>dash_state := dashboardReducer now (dash_state p) a,
          filters_identity := (case a of SET_FILTERS f \<Rightarrow> Suc (filters_identity p)
                               | _ \<Rightarrow> filters_identity p)\<rparr>)"

definition provider_updateConfig :: "timestamp \<Rightarrow> DashboardConfig_partial \<Rightarrow> provider \<Rightarrow> provider" where
  "provider_updateConfig now partial p = provider_dispatch now (SET_CONFIG partial) p"

text \<open>
  Mounting: the auto-refresh effect runs, then the initial-fetch effect calls
  \<^verbatim>\<open>fetchMetrics()\<close>.
\<close>

definition DashboardProvider :: "string \<Rightarrow> string \<Rightarrow> timestamp \<Rightarrow> provider" where
  "DashboardProvider thirty_days_ago today now =
     (let p0 = \<lparr>dash_state = initialState thirty_days_ago today, filters_identity = 0,
                auto_timer = None, host_timers = no_timers, calls_log = []\<rparr>;
          p1 = auto_refresh_effect p0;
          (s, c) = fetchMetrics_begin now (dash_state p1)
      in p1\<lparr>dash_state := s, calls_log := [c]\<rparr>)"

text \<open>
  The period elapses: the callback of every timer the host still runs calls
  \<^verbatim>\<open>refreshAllData()\<close>, which dispatches and issues its four service calls.
\<close>

definition timer_callback :: "timestamp \<Rightarrow> DashboardState \<Rightarrow> provider \<Rightarrow> provider" where
  "timer_callback now rendered p =
     (let (s, calls) = refreshAllData_begin now rendered (dash_state p)
      in commit p (p\<lparr>dash_state := s, calls_log := calls_log p @ calls\<rparr>))"

definition interval_elapses :: "timestamp \<Rightarrow> DashboardState \<Rightarrow> provider \<Rightarrow> provider" where
  "interval_elapses now rendered p =
     fold (\<lambda>timer q. timer_callback now rendered q) (live (host_timers p)) p"

text \<open>
  The provider's timers are in order when the host runs exactly the timer the cleanup
  holds, and one is held exactly when auto-refresh is on with a positive interval.
\<close>

definition timers_in_order :: "provider \<Rightarrow> bool" where
  "timers_in_order p \<longleftrightarrow>
     map fst (live (host_timers p)) = (case auto_timer p of None \<Rightarrow> [] | Some handle \<Rightarrow> [handle]) \<and>
     (auto_timer p \<noteq> None \<longleftrightarrow>
        autoRefresh (config (dash_state p)) \<and> refreshInterval (config (dash_state p)) > 0)"

section \<open>Connection hook (second \<^verbatim>\<open>useRealTimeData\<close>, with \<^verbatim>\<open>connect\<close> and \<^verbatim>\<open>disconnect\<close>)\<close>

datatype connection_status = disconnected | connecting | connected

text \<open>
  The hook instance: the \<^verbatim>\<open>enabled\<close> option of the current render, its React state, its
  interval ref with the host's timers, and the number of \<^verbatim>\<open>setTimeout\<close> callbacks that
  \<^verbatim>\<open>connect\<close> has scheduled and that have not run yet. The effect that starts and stops
  the update interval never writes the status and is left out.
\<close>

record connection_hook =
  enabled :: bool
  isConnected :: bool
  lastUpdate :: "timestamp option"
  connectionStatus :: connection_status
  conn_intervalRef :: "timer_id option"
  conn_timers :: timer_table
  pending_connects :: nat

definition connection_hook_init :: "bool \<Rightarrow> connection_hook" where
  "connection_hook_init e =
     \<lparr>enabled = e, isConnected = False, lastUpdate = None, connectionStatus = disconnected,
      conn_intervalRef = None, conn_timers = no_timers, pending_connects = 0\<rparr>"

definition connect :: "connection_hook \<Rightarrow> connection_hook" where
  "connect h = h\<lparr>connectionStatus := connecting, pending_connects := Suc (pending_connects h)\<rparr>"

text \<open>The callback that \<^verbatim>\<open>connect\<close> scheduled runs, after its random delay.\<close>

definition connect_timeout :: "timestamp \<Rightarrow> connection_hook \<Rightarrow> connection_hook" where
  "connect_timeout now h =
     (if pending_connects h = 0 then h
      else h\<lparr>pending_connects := pending_connects h - 1, isConnected := True,
             connectionStatus := connected, lastUpdate := Some now\<rparr>)"

definition disconnect :: "connection_hook \<Rightarrow> connection_hook" where
  "disconnect h =
     (let h1 = h\<lparr>isConnected := False, connectionStatus := disconnected\<rparr>
      in case conn_intervalRef h1 of
           Some handle \<Rightarrow> h1\<lparr>conn_timers := clearInterval handle (conn_timers h1),
                               conn_intervalRef := None\<rparr>
         | None \<Rightarrow> h1)"

definition auto_connect_effect :: "connection_hook \<Rightarrow> connection_hook" where
  "auto_connect_effect h =
     (if enabled h \<and> connectionStatus h = disconnected then connect h
      else if \<not> enabled h \<and> isConnected h then disconnect h
      else h)"

text \<open>
  What can happen to a mounted hook: the owner renders it with a new \<^verbatim>\<open>enabled\<close>, the
  auto-connect effect runs, a scheduled connection callback runs, or the owner calls the
  returned \<^verbatim>\<open>connect\<close> or \<^verbatim>\<open>disconnect\<close>.
\<close>

datatype connection_event =
    SetEnabled bool
  | AutoConnectEffect
  | ConnectTimeout timestamp
  | CallConnect
  | CallDisconnect

fun connection_step :: "connection_hook \<Rightarrow> connection_event \<Rightarrow> connection_hook" where
  "connection_step h (SetEnabled e) = h\<lparr>enabled := e\<rparr>"
| "connection_step h AutoConnectEffect = auto_connect_effect h"
| "connection_step h (ConnectTimeout now) = connect_timeout now h"
| "connection_step h CallConnect = connect h"
| "connection_step h CallDisconnect = disconnect h"

definition connection_run :: "bool \<Rightarrow> connection_event list \<Rightarrow> connection_hook" where
  "connection_run e events = foldl connection_step (connection_hook_init e) events"

fun flag_driven :: "connection_event \<Rightarrow> bool" where
  "flag_driven CallConnect = False"
| "flag_driven CallDisconnect = False"
| "flag_driven _ = True"

fun is_timeout :: "connection_event \<Rightarrow> bool" where
  "is_timeout (ConnectTimeout now) = True"
| "is_timeout _ = False"

text \<open>
  The status changes the state machine allows for one event: none, or
  disconnected to connecting when the effect sees \<^verbatim>\<open>enabled\<close>, or connecting to
  connected when a connection callback runs, or connected to disconnected when the effect
  sees \<^verbatim>\<open>enabled\<close> off.
\<close>

definition allowed_change :: "connection_hook \<Rightarrow> connection_event \<Rightarrow> connection_hook \<Rightarrow> bool" where
  "allowed_change before ev after \<longleftrightarrow>
     connectionStatus after = connectionStatus before \<or>
     (connectionStatus before = disconnected \<and> connectionStatus after = connecting \<and>
        ev = AutoConnectEffect \<and> enabled before) \<or>
     (connectionStatus before = connecting \<and> connectionStatus after = connected \<and> is_timeout ev) \<or>
     (connectionStatus before = connected \<and> connectionStatus after = disconnected \<and>
        ev = AutoConnectEffect \<and> \<not> enabled before)"

definition connection_inv :: "connection_hook \<Rightarrow> bool" where
  "connection_inv h \<longleftrightarrow>
     pending_connects h \<le> 1 \<and>
     (pending_connects h = 1 \<longrightarrow> connectionStatus h = connecting) \<and>
     (isConnected h \<longleftrightarrow> connectionStatus h = connected)"

section \<open>Revenue generator (src/services/mockDataGenerator.ts)\<close>

text \<open>
  A calendar month as \<^verbatim>\<open>Date\<close> holds it: the full year and the month index from 0.
  \<open>new_Date y m\<close> is \<^verbatim>\<open>new Date(y, m, 1)\<close>: a year from 0 to 99 means 1900 plus that
  year, and a month index outside 0 to 11 carries into the year.
\<close>

record js_month =
  fullYear :: int
  monthIndex :: int

definition new_Date :: "int \<Rightarrow> int \<Rightarrow> js_month" where
  "new_Date y m =
     (let y1 = (if 0 \<le> y \<and> y \<le> 99 then 1900 + y else y)
      in \<lparr>fullYear = y1 + m div 12, monthIndex = m mod 12\<rparr>)"

text \<open>The position of a month on the calendar, counted in months.\<close>

definition month_ordinal :: "js_month \<Rightarrow> int" where
  "month_ordinal d = fullYear d * 12 + monthIndex d"

definition month_short :: "int \<Rightarrow> string" where
  "month_short m =
     (if 0 \<le> m \<and> m < 12
      then [''Jan'', ''Feb'', ''Mar'', ''Apr'', ''May'', ''Jun'',
            ''Jul'', ''Aug'', ''Sep'', ''Oct'', ''Nov'', ''Dec''] ! nat m
      else ''Invalid Date'')"

definition month_long :: "int \<Rightarrow> string" where
  "month_long m =
     (if 0 \<le> m \<and> m < 12
      then [''January'', ''February'', ''March'', ''April'', ''May'', ''June'', ''July'',
            ''August'', ''September'', ''October'', ''November'', ''December''] ! nat m
      else ''Invalid Date'')"

fun decimal :: "nat \<Rightarrow> string" where
  "decimal n = (if n < 10 then [char_of (48 + n)] else decimal (n div 10) @ [char_of (48 + n mod 10)])"

text \<open>
  \<^verbatim>\<open>toLocaleDateString('en-US', ...)\<close> with \<^verbatim>\<open>month: 'short'\<close>, and with
  \<^verbatim>\<open>month: 'long', year: 'numeric'\<close> (for the years of the common era).
\<close>

definition label_short :: "js_month \<Rightarrow> string" where
  "label_short d = month_short (monthIndex d)"

definition label_long :: "js_month \<Rightarrow> string" where
  "label_long d = month_long (monthIndex d) @ '' '' @ decimal (nat (fullYear d))"

text \<open>
  Numbers are real numbers here, with \<^verbatim>\<open>Math.round\<close> rounding halves up; the
  double-precision rounding of each product is not modelled. \<open>rnd k\<close> is what the
  \<open>k\<close>-th call of \<^verbatim>\<open>Math.random()\<close> returns, a number from 0 up to but not
  including 1.
\<close>

definition math_round :: "real \<Rightarrow> int" where
  "math_round v = \<lfloor>v + 1 / 2\<rfloor>"

definition random_source :: "(nat \<Rightarrow> real) \<Rightarrow> bool" where
  "random_source rnd \<longleftrightarrow> (\<forall>k. 0 \<le> rnd k \<and> rnd k < 1)"

record revenue_point =
  point_x :: string
  point_y :: int
  point_label :: string

text \<open>The month the loop builds at index \<open>i\<close>, and the point it pushes.\<close>

definition iteration_month :: "js_month \<Rightarrow> int \<Rightarrow> js_month" where
  "iteration_month currentDate i = new_Date (fullYear currentDate) (monthIndex currentDate - i)"

definition revenue_point_at :: "js_month \<Rightarrow> (nat \<Rightarrow> real) \<Rightarrow> int \<Rightarrow> int \<Rightarrow> revenue_point" where
  "revenue_point_at currentDate rnd months i =
     (let date = iteration_month currentDate i;
          baseRevenue = 50000;
          seasonalMultiplier = 1 + sin ((real_of_int (monthIndex date) / 12) * 2 * pi) * 0.3;
          randomVariation = 0.8 + rnd (nat (months - i - 1)) * 0.4;
          growthTrend = 1 + real_of_int (months - i - 1) * 0.05
      in \<lparr>point_x = label_short date,
          point_y = math_round (baseRevenue * seasonalMultiplier * randomVariation * growthTrend),
          point_label = label_long date\<rparr>)"

text \<open>
  The loop \<^verbatim>\<open>for (let i = months - 1; i >= 0; i--)\<close>: \<open>revenue_loop \<dots> n\<close> is the
  part of the loop that starts at \<open>i = n - 1\<close>. \<open>revenue_months\<close> lists the months the
  same iterations build.
\<close>

fun revenue_loop :: "js_month \<Rightarrow> (nat \<Rightarrow> real) \<Rightarrow> int \<Rightarrow> nat \<Rightarrow> revenue_point list" where
  "revenue_loop currentDate rnd months 0 = []"
| "revenue_loop currentDate rnd months (Suc n) =
     revenue_point_at currentDate rnd months (int n) # revenue_loop currentDate rnd months n"

fun revenue_months :: "js_month \<Rightarrow> nat \<Rightarrow> js_month list" where
  "revenue_months currentDate 0 = []"
| "revenue_months currentDate (Suc n) =
     iteration_month currentDate (int n) # revenue_months currentDate n"

definition generateRevenueData :: "js_month \<Rightarrow> (nat \<Rightarrow> real) \<Rightarrow> int \<Rightarrow> revenue_point list" where
  "generateRevenueData currentDate rnd months = revenue_loop currentDate rnd months (nat months)"

text \<open>A reading of the clock: a month index from 0 to 11, in a year after 99.\<close>

definition clock_month :: "js_month \<Rightarrow> bool" where
  "clock_month d \<longleftrightarrow> 99 < fullYear d \<and> 0 \<le> monthIndex d \<and> monthIndex d \<le> 11"

section \<open>Sample inputs\<close>

definition sample_bundle :: fresh_bundle where
  "sample_bundle =
     \<lparr>newRevenue = [JNum 1], newUsers = [JNum 2], newPerformance = JObj [],
      newKeywords = [JStr ''TypeScript''], generated_at = ''2024-01-01T00:00:01.000Z''\<rparr>"

definition sample_hook :: stream_hook where
  "sample_hook =
     useRealTimeData ''2024-01-01T00:00:00.000Z''
       \<lparr>interval_opt = Some 3000, volatility_opt = Some 0.4, trend_opt = Some up\<rparr>"

definition sample_state :: DashboardState where
  "sample_state = initialState ''2023-12-02'' ''2024-01-01''"

definition sample_sales :: "SalesData list ApiResponse" where
  "sample_sales =
     \<lparr>resp_data = [\<lparr>sale_id = ''1'', sale_date = ''2024-01-01'', amount = 1500,
                    product = ''Product 1'', sale_category = ''Electronics'',
                    sale_region = ''North''\<rparr>],
      resp_status = success, resp_message = Some ''Sales data fetched successfully'',
      resp_timestamp = ''2024-01-01T00:00:02.000Z''\<rparr>"

definition sample_outcomes :: remote_outcomes where
  "sample_outcomes =
     \<lparr>getMetrics_outcome = Inl (JError ''timeout of 10000ms exceeded''),
      getSalesData_outcome = Inr sample_sales,
      getUserAnalytics_outcome = Inl (JObj [(''code'', JStr ''API_ERROR_500'')]),
      getPerformanceMetrics_outcome =
        Inr \<lparr>resp_data = [], resp_status = success, resp_message = None,
             resp_timestamp = ''2024-01-01T00:00:03.000Z''\<rparr>\<rparr>"

definition sample_schedule :: "(dataset_kind \<times> timestamp) list" where
  "sample_schedule =
     [(PerformanceKind, ''2024-01-01T00:00:03.000Z''), (SalesKind, ''2024-01-01T00:00:04.000Z''),
      (MetricsKind, ''2024-01-01T00:00:05.000Z''), (UserAnalyticsKind, ''2024-01-01T00:00:06.000Z'')]"

definition sample_provider :: provider where
  "sample_provider = DashboardProvider ''2023-12-02'' ''2024-01-01'' ''2024-01-01T00:00:00.000Z''"

definition sample_clock :: js_month where
  "sample_clock = \<lparr>fullYear = 2024, monthIndex = 2\<rparr>"

definition sample_random :: "nat \<Rightarrow> real" where
  "sample_random k = 1 / 2"

definition sample_filter_update :: FilterOptions_partial where
  "sample_filter_update =
     \<lparr>dateRange_opt = None, category_opt = Some (Some ''Electronics''), region_opt = None\<rparr>"

definition sample_filtered_state :: DashboardState where
  "sample_filtered_state =
     updateFilters ''2024-01-01T00:00:01.000Z'' sample_state sample_filter_update sample_state"

definition sample_started :: stream_hook where
  "sample_started = toggleStream (data sample_hook) sample_bundle sample_hook"

section \<open>Properties of the live-data hook\<close>

lemma coherent_useRealTimeData: "coherent (useRealTimeData now cfg)"
  by (simp add: coherent_def useRealTimeData_def no_timers_def)

lemma coherent_generateFreshData: "coherent h \<Longrightarrow> coherent (generateFreshData b h)"
  by (simp add: coherent_def generateFreshData_def setData_def)

lemma coherent_startStream: "coherent h \<Longrightarrow> coherent (startStream b h)"
  by (auto simp: coherent_def startStream_def generateFreshData_def setData_def
        setInterval_def Let_def split: option.splits)

lemma coherent_stopStream: "coherent h \<Longrightarrow> coherent (stopStream h)"
  by (auto simp: coherent_def stopStream_def setData_def clearInterval_def Let_def
        split: option.splits)

lemma coherent_toggleStream: "coherent h \<Longrightarrow> coherent (toggleStream rendered b h)"
  by (simp add: toggleStream_def coherent_startStream coherent_stopStream)

lemma coherent_restart_fires: "coherent h \<Longrightarrow> coherent (restart_fires b h)"
proof -
  assume c: "coherent h"
  have "coherent (h\<lparr>pending_restarts := pending_restarts h - 1\<rparr>)"
    using c by (simp add: coherent_def)
  then show ?thesis
    using c by (simp add: restart_fires_def coherent_startStream)
qed

lemma coherent_updateConfig: "coherent h \<Longrightarrow> coherent (updateConfig rendered p h)"
proof -
  assume c: "coherent h"
  have c1: "coherent (h\<lparr>configRef := spread_config (configRef h) p\<rparr>)"
    using c by (simp add: coherent_def)
  have "coherent (stopStream (h\<lparr>configRef := spread_config (configRef h) p\<rparr>))"
    using c1 by (rule coherent_stopStream)
  then have "coherent ((stopStream (h\<lparr>configRef := spread_config (configRef h) p\<rparr>))
               \<lparr>pending_restarts := n\<rparr>)" for n
    by (simp add: coherent_def)
  then show ?thesis
    using c1 by (simp add: updateConfig_def Let_def)
qed

lemma coherent_at_most_one_timer: "coherent h \<Longrightarrow> length (live (timers h)) \<le> 1"
proof -
  assume "coherent h"
  then have "length (map fst (live (timers h))) \<le> 1"
    by (simp add: coherent_def split: option.splits)
  then show ?thesis by simp
qed

text \<open>
  Claim C10. Calling \<^verbatim>\<open>startStream\<close> while the interval handle is non-null is a
  complete no-op: the hook (its data, its configuration, its ref, the host's timers) is
  exactly what it was, so no second timer exists and nothing was regenerated.
\<close>

theorem startStream_active_noop:
  "intervalRef h \<noteq> None \<Longrightarrow> startStream b h = h"
  by (simp add: startStream_def)

theorem startStream_active_noop_witness:
  "intervalRef (startStream sample_bundle sample_hook) \<noteq> None \<and>
   startStream sample_bundle (startStream sample_bundle sample_hook)
     = startStream sample_bundle sample_hook"
proof -
  have active: "intervalRef (startStream sample_bundle sample_hook) \<noteq> None"
    by (simp add: startStream_def sample_hook_def useRealTimeData_def generateFreshData_def
          setData_def setInterval_def no_timers_def Let_def)
  show ?thesis
    using active startStream_active_noop [OF active, of sample_bundle] by simp
qed

lemma configRef_stopStream: "configRef (stopStream h) = configRef h"
  by (simp add: stopStream_def setData_def Let_def split: option.splits)

text \<open>
  Claim C4, as the code has it. \<^verbatim>\<open>updateConfig\<close> validates nothing: the stored
  configuration becomes the spread of the old one and the partial one, so every key
  present in the partial configuration replaces the stored value, whatever the value
  (a zero or negative interval included), and only absent keys keep the previous value.
\<close>

theorem updateConfig_merges_without_validation:
  "configRef (updateConfig rendered p h) =
     \<lparr>interval = (case interval_opt p of None \<Rightarrow> interval (configRef h) | Some v \<Rightarrow> v),
      volatility = (case volatility_opt p of None \<Rightarrow> volatility (configRef h) | Some v \<Rightarrow> v),
      trend = (case trend_opt p of None \<Rightarrow> trend (configRef h) | Some v \<Rightarrow> v)\<rparr>"
  by (simp add: updateConfig_def Let_def configRef_stopStream spread_config_def)

text \<open>
  Claim C4 as stated fails: a hook configured with an interval of 3000 ms adopts the
  interval 0 that \<^verbatim>\<open>updateConfig({ interval: 0 })\<close> passes.
\<close>

theorem updateConfig_adopts_zero_interval:
  "interval (configRef sample_hook) = 3000 \<and>
   interval (configRef (updateConfig (data sample_hook)
      \<lparr>interval_opt = Some 0, volatility_opt = None, trend_opt = None\<rparr> sample_hook)) = 0"
  by (simp add: updateConfig_def Let_def sample_hook_def useRealTimeData_def spread_config_def)

lemmas stream_defs =
  toggleStream_def stopStream_def startStream_def generateFreshData_def
  setData_def setInterval_def clearInterval_def Let_def

lemmas sample_stream_defs =
  sample_started_def sample_hook_def sample_bundle_def useRealTimeData_def spread_config_def
  no_timers_def

text \<open>
  Claim C7, as the code has it. \<^verbatim>\<open>toggleStream\<close> reads \<^verbatim>\<open>data.isLive\<close> from the
  render that created it and has no guard of its own against a second call. On a coherent
  hook, the first call of the current render's callback flips the live flag and starts or
  stops the stream: a stopped stream gets exactly one timer, at the configured interval,
  held by the ref; a live stream loses its timer and the ref is cleared. A second call of
  the same render's callback changes nothing, so two calls with no render in between flip
  the flag once. A second call of the next render's callback flips the flag back. Whatever
  renders the two callbacks come from, the host runs at most one regeneration timer
  before, between and after the calls.
\<close>

theorem toggleStream_same_render_flips_once:
  assumes "coherent h"
  shows "isLive (data (toggleStream (data h) b1 h)) = (\<not> isLive (data h)) \<and>
         live (timers (toggleStream (data h) b1 h)) =
           (if isLive (data h) then [] else [(fresh_id (timers h), interval (configRef h))]) \<and>
         intervalRef (toggleStream (data h) b1 h) =
           (if isLive (data h) then None else Some (fresh_id (timers h))) \<and>
         toggleStream (data h) b2 (toggleStream (data h) b1 h) = toggleStream (data h) b1 h \<and>
         isLive (data (toggleStream (data (toggleStream (data h) b1 h)) b2
                         (toggleStream (data h) b1 h))) = isLive (data h) \<and>
         length (live (timers h)) \<le> 1 \<and>
         length (live (timers (toggleStream r1 b1 h))) \<le> 1 \<and>
         length (live (timers (toggleStream r2 b2 (toggleStream r1 b1 h)))) \<le> 1"
proof -
  let ?h1 = "toggleStream (data h) b1 h"
  have flip: "isLive (data ?h1) = (\<not> isLive (data h))"
    using assms by (auto simp: stream_defs coherent_def split: option.splits)
  have tm: "live (timers ?h1) =
           (if isLive (data h) then [] else [(fresh_id (timers h), interval (configRef h))])"
  proof (cases "isLive (data h)")
    case True
    then obtain handle where r: "intervalRef h = Some handle" and
      l: "map fst (live (timers h)) = [handle]"
      using assms by (auto simp: coherent_def split: option.splits)
    from l have "filter (\<lambda>e. fst e \<noteq> handle) (live (timers h)) = []"
      by (auto simp: filter_empty_conv)
    then show ?thesis using True r by (simp add: stream_defs)
  next
    case False
    then have "intervalRef h = None" and "live (timers h) = []"
      using assms by (auto simp: coherent_def)
    then show ?thesis using False by (simp add: stream_defs)
  qed
  have rf: "intervalRef ?h1 = (if isLive (data h) then None else Some (fresh_id (timers h)))"
    using assms by (auto simp: stream_defs coherent_def split: option.splits)
  have same: "toggleStream (data h) b2 ?h1 = ?h1"
  proof (cases "isLive (data h)")
    case True
    then show ?thesis
      by (auto simp: toggleStream_def stopStream_def setData_def Let_def split: option.splits)
  next
    case False
    then have "intervalRef ?h1 \<noteq> None" using rf by simp
    then have "startStream b2 ?h1 = ?h1" by (simp add: startStream_def)
    then show ?thesis using False by (simp add: toggleStream_def [of "data h" b2])
  qed
  have c1: "coherent ?h1" using assms by (rule coherent_toggleStream)
  have again: "isLive (data (toggleStream (data ?h1) b2 ?h1)) = isLive (data h)"
  proof -
    have "isLive (data (toggleStream (data ?h1) b2 ?h1)) = (\<not> isLive (data ?h1))"
      using c1 by (auto simp: stream_defs coherent_def split: option.splits)
    then show ?thesis using flip by simp
  qed
  have d1: "coherent (toggleStream r1 b1 h)" using assms by (rule coherent_toggleStream)
  have d2: "coherent (toggleStream r2 b2 (toggleStream r1 b1 h))"
    using d1 by (rule coherent_toggleStream)
  show ?thesis
    using flip tm rf same again coherent_at_most_one_timer [OF assms]
      coherent_at_most_one_timer [OF d1] coherent_at_most_one_timer [OF d2]
    by simp
qed

theorem toggleStream_same_render_flips_once_witness:
  "coherent sample_hook \<and>
   \<not> isLive (data sample_hook) \<and>
   isLive (data sample_started) \<and>
   live (timers sample_started) = [(1, 3000)] \<and>
   intervalRef sample_started = Some 1 \<and>
   toggleStream (data sample_hook) sample_bundle sample_started = sample_started \<and>
   length (live (timers (toggleStream (data sample_hook) sample_bundle sample_started))) \<le> 1"
proof -
  have c: "coherent sample_hook"
    by (simp add: coherent_def sample_hook_def useRealTimeData_def no_timers_def)
  have off: "\<not> isLive (data sample_hook)"
    by (simp add: sample_hook_def useRealTimeData_def)
  have f: "fresh_id (timers sample_hook) = 1"
    by (simp add: sample_hook_def useRealTimeData_def no_timers_def)
  have i: "interval (configRef sample_hook) = 3000"
    by (simp add: sample_hook_def useRealTimeData_def spread_config_def)
  show ?thesis
    using c off f i
      toggleStream_same_render_flips_once [OF c, of sample_bundle sample_bundle
        "data sample_hook" "data sample_hook"]
    by (simp add: sample_started_def)
qed

text \<open>
  Claim C7 as stated fails: two calls of \<^verbatim>\<open>toggleStream\<close> in succession, the second
  after the render that follows the first (two clicks on the button), flip the live flag
  twice; the stream ends stopped as it began, with no timer.
\<close>

theorem toggleStream_twice_across_renders_flips_twice:
  "\<not> isLive (data sample_hook) \<and>
   isLive (data sample_started) \<and>
   \<not> isLive (data (toggleStream (data sample_started) sample_bundle sample_started)) \<and>
   live (timers (toggleStream (data sample_started) sample_bundle sample_started)) = []"
  by (simp add: sample_stream_defs stream_defs)

section \<open>Properties of the auto-refresh effect\<close>

lemma live_effect_cleanup:
  "map fst (live (host_timers p)) = (case auto_timer p of None \<Rightarrow> [] | Some handle \<Rightarrow> [handle]) \<Longrightarrow>
   live (host_timers (effect_cleanup p)) = [] \<and> auto_timer (effect_cleanup p) = None \<and>
   dash_state (effect_cleanup p) = dash_state p"
  by (auto simp: effect_cleanup_def clearInterval_def split: option.splits)

lemma timers_in_order_effect:
  "live (host_timers p) = [] \<Longrightarrow> timers_in_order (auto_refresh_effect p)"
  by (simp add: timers_in_order_def auto_refresh_effect_def setInterval_def Let_def)

lemma timers_in_order_commit:
  assumes "timers_in_order p"
    and "host_timers q = host_timers p" and "auto_timer q = auto_timer p"
  shows "timers_in_order (commit p q)"
proof (cases "effect_deps q = effect_deps p")
  case True
  then show ?thesis
    using assms by (simp add: commit_def timers_in_order_def effect_deps_def)
next
  case False
  have "map fst (live (host_timers q)) = (case auto_timer q of None \<Rightarrow> [] | Some handle \<Rightarrow> [handle])"
    using assms by (simp add: timers_in_order_def)
  then have "live (host_timers (effect_cleanup q)) = []"
    using live_effect_cleanup by blast
  then have "timers_in_order (auto_refresh_effect (effect_cleanup q))"
    by (rule timers_in_order_effect)
  then show ?thesis
    using False by (simp add: commit_def)
qed

lemma timers_in_order_dispatch: "timers_in_order p \<Longrightarrow> timers_in_order (provider_dispatch now a p)"
  unfolding provider_dispatch_def by (rule timers_in_order_commit) simp_all

lemma timers_in_order_mount: "timers_in_order (DashboardProvider a b now)"
  by (simp add: DashboardProvider_def timers_in_order_def auto_refresh_effect_def initialState_def
        setInterval_def no_timers_def fetchMetrics_begin_def Let_def)

lemma timers_in_order_callback: "timers_in_order p \<Longrightarrow> timers_in_order (timer_callback now rendered p)"
  unfolding timer_callback_def Let_def split_def by (rule timers_in_order_commit) simp_all

lemma autoRefresh_after_updateConfig:
  "autoRefresh (config (dash_state (provider_updateConfig now partial p)))
     = (case autoRefresh_opt partial of None \<Rightarrow> autoRefresh (config (dash_state p)) | Some v \<Rightarrow> v)"
  by (simp add: provider_updateConfig_def provider_dispatch_def commit_def auto_refresh_effect_def
        effect_cleanup_def spread_dashboard_config_def Let_def split_def split: option.splits)

text \<open>
  Claim C8. On a provider whose timers are in order (as they are from mounting on, through
  every dispatch and every timer callback), setting \<^verbatim>\<open>autoRefresh\<close> to false leaves the
  host with no timer of the provider and the effect's cleanup with no handle; when the
  former period elapses nothing runs, so the provider (its state and the list of service
  calls it issued) is exactly what it was.
\<close>

theorem disabling_auto_refresh_stops_timer:
  assumes "timers_in_order p" and "autoRefresh_opt partial = Some False"
  shows "live (host_timers (provider_updateConfig now partial p)) = [] \<and>
         auto_timer (provider_updateConfig now partial p) = None \<and>
         interval_elapses later rendered (provider_updateConfig now partial p)
           = provider_updateConfig now partial p"
proof -
  let ?q = "provider_updateConfig now partial p"
  have ord: "timers_in_order ?q"
    using assms(1) by (simp add: provider_updateConfig_def timers_in_order_dispatch)
  have off: "\<not> autoRefresh (config (dash_state ?q))"
    using assms(2) by (simp add: autoRefresh_after_updateConfig)
  from ord off have none: "auto_timer ?q = None"
    by (simp add: timers_in_order_def)
  with ord have "map fst (live (host_timers ?q)) = []"
    by (simp add: timers_in_order_def)
  then have empty: "live (host_timers ?q) = []" by simp
  then have "interval_elapses later rendered ?q = ?q"
    by (simp add: interval_elapses_def)
  with empty none show ?thesis by simp
qed

theorem disabling_auto_refresh_stops_timer_witness:
  "timers_in_order sample_provider \<and>
   live (host_timers sample_provider) = [(1, 300000)] \<and>
   live (host_timers (provider_updateConfig ''2024-01-01T00:10:00.000Z''
      \<lparr>refreshInterval_opt = None, autoRefresh_opt = Some False, theme_opt = None, layout_opt = None\<rparr>
      sample_provider)) = [] \<and>
   interval_elapses ''2024-01-01T00:15:00.000Z'' sample_state
     (provider_updateConfig ''2024-01-01T00:10:00.000Z''
      \<lparr>refreshInterval_opt = None, autoRefresh_opt = Some False, theme_opt = None, layout_opt = None\<rparr>
      sample_provider)
    = provider_updateConfig ''2024-01-01T00:10:00.000Z''
      \<lparr>refreshInterval_opt = None, autoRefresh_opt = Some False, theme_opt = None, layout_opt = None\<rparr>
      sample_provider"
proof -
  have ord: "timers_in_order sample_provider"
    by (simp add: sample_provider_def DashboardProvider_def timers_in_order_def
          auto_refresh_effect_def initialState_def setInterval_def no_timers_def
          fetchMetrics_begin_def Let_def)
  have running: "live (host_timers sample_provider) = [(1, 300000)]"
    by (simp add: sample_provider_def DashboardProvider_def auto_refresh_effect_def
          initialState_def setInterval_def no_timers_def fetchMetrics_begin_def Let_def)
  have off: "autoRefresh_opt \<lparr>refreshInterval_opt = None, autoRefresh_opt = Some False,
               theme_opt = None, layout_opt = None\<rparr> = Some False"
    by simp
  show ?thesis
    using ord running disabling_auto_refresh_stops_timer [OF ord off] by simp
qed

section \<open>Properties of the connection hook\<close>

lemma connection_inv_init: "connection_inv (connection_hook_init e)"
  by (simp add: connection_inv_def connection_hook_init_def)

lemma connection_inv_step:
  "connection_inv h \<Longrightarrow> flag_driven ev \<Longrightarrow> connection_inv (connection_step h ev)"
  by (cases ev)
     (auto simp: connection_inv_def auto_connect_effect_def connect_def disconnect_def
        connect_timeout_def Let_def split: option.splits)

lemma connection_inv_run:
  "list_all flag_driven events \<Longrightarrow> connection_inv (connection_run e events)"
proof (induction events rule: rev_induct)
  case Nil
  then show ?case by (simp add: connection_run_def connection_inv_init)
next
  case (snoc ev events)
  then show ?case
    by (simp add: connection_run_def connection_inv_step)
qed

lemma allowed_change_step:
  "connection_inv h \<Longrightarrow> flag_driven ev \<Longrightarrow> allowed_change h ev (connection_step h ev)"
  by (cases ev)
     (auto simp: connection_inv_def allowed_change_def auto_connect_effect_def connect_def
        disconnect_def connect_timeout_def Let_def split: option.splits)

lemma status_connect: "connectionStatus (connect h) = connecting"
  by (simp add: connect_def)

lemma status_disconnect: "connectionStatus (disconnect h) = disconnected"
  by (simp add: disconnect_def Let_def split: option.splits)

text \<open>
  Claim C6, as the code has it. While the hook is driven by its \<^verbatim>\<open>enabled\<close> option
  alone (renders with a new \<^verbatim>\<open>enabled\<close>, runs of the auto-connect effect, connection
  callbacks), every change of the status is one of three: disconnected to connecting when
  the effect sees \<^verbatim>\<open>enabled\<close>, connecting to connected when the connection callback
  runs, connected to disconnected when the effect sees \<^verbatim>\<open>enabled\<close> off. \<^verbatim>\<open>connect\<close>
  sets connecting and \<^verbatim>\<open>disconnect\<close> sets disconnected at once, from any status; the
  scheduled callback alone sets connected.
\<close>

theorem flag_driven_status_changes:
  assumes "list_all flag_driven events" and "flag_driven ev"
  shows "allowed_change (connection_run e events) ev
           (connection_step (connection_run e events) ev) \<and>
         connectionStatus (connect h) = connecting \<and>
         connectionStatus (disconnect h) = disconnected \<and>
         (connectionStatus (connect_timeout now h) = connectionStatus h \<or>
          connectionStatus (connect_timeout now h) = connected)"
  using allowed_change_step [OF connection_inv_run [OF assms(1)] assms(2)]
  by (simp add: status_connect status_disconnect connect_timeout_def)

theorem flag_driven_status_changes_witness:
  "list_all flag_driven [SetEnabled True, AutoConnectEffect] \<and>
   flag_driven (ConnectTimeout ''2024-01-01T00:00:02.000Z'') \<and>
   connectionStatus (connection_run False [SetEnabled True, AutoConnectEffect]) = connecting \<and>
   connectionStatus (connection_step (connection_run False [SetEnabled True, AutoConnectEffect])
      (ConnectTimeout ''2024-01-01T00:00:02.000Z'')) = connected \<and>
   allowed_change (connection_run False [SetEnabled True, AutoConnectEffect])
      (ConnectTimeout ''2024-01-01T00:00:02.000Z'')
      (connection_step (connection_run False [SetEnabled True, AutoConnectEffect])
         (ConnectTimeout ''2024-01-01T00:00:02.000Z''))"
proof -
  have evs: "list_all flag_driven [SetEnabled True, AutoConnectEffect]" by simp
  have ev: "flag_driven (ConnectTimeout ''2024-01-01T00:00:02.000Z'')" by simp
  have a: "connectionStatus (connection_run False [SetEnabled True, AutoConnectEffect]) = connecting"
    by (simp add: connection_run_def connection_hook_init_def auto_connect_effect_def connect_def)
  have b: "connectionStatus (connection_step (connection_run False [SetEnabled True, AutoConnectEffect])
      (ConnectTimeout ''2024-01-01T00:00:02.000Z'')) = connected"
    by (simp add: connection_run_def connection_hook_init_def auto_connect_effect_def connect_def
          connect_timeout_def)
  show ?thesis
    using evs ev a b flag_driven_status_changes [OF evs ev, of False]
    by simp
qed

text \<open>
  Claim C6 as stated fails: the hook returns \<^verbatim>\<open>connect\<close> to its owner, and a call of
  it on a connected hook takes the status from connected to connecting.
\<close>

theorem connect_while_connected_leaves_state_machine:
  "connectionStatus (connection_run True [AutoConnectEffect, ConnectTimeout ''2024-01-01T00:00:02.000Z''])
     = connected \<and>
   connectionStatus (connection_step
      (connection_run True [AutoConnectEffect, ConnectTimeout ''2024-01-01T00:00:02.000Z''])
      CallConnect) = connecting \<and>
   \<not> allowed_change
      (connection_run True [AutoConnectEffect, ConnectTimeout ''2024-01-01T00:00:02.000Z''])
      CallConnect
      (connection_step
         (connection_run True [AutoConnectEffect, ConnectTimeout ''2024-01-01T00:00:02.000Z''])
         CallConnect)"
  by (simp add: connection_run_def connection_hook_init_def auto_connect_effect_def connect_def
        connect_timeout_def allowed_change_def)

section \<open>Properties of the fetchers\<close>

lemma handleError_state:
  "handleError now err ctx s =
     s\<lparr>error := Some \<lparr>code = ''DASHBOARD_ERROR'',
                      message = (case err of JError m \<Rightarrow> m | _ \<Rightarrow> ''An unexpected error occurred''),
                      details = Some (JObj [(''context'', JStr ctx), (''error'', err)]),
                      timestamp = now\<rparr>,
       loading := (loading s)\<lparr>isLoading := False,
          loading_error := message_or_null (Some \<lparr>code = ''DASHBOARD_ERROR'',
                      message = (case err of JError m \<Rightarrow> m | _ \<Rightarrow> ''An unexpected error occurred''),
                      details = Some (JObj [(''context'', JStr ctx), (''error'', err)]),
                      timestamp = now\<rparr>)\<rparr>\<rparr>"
  by (simp add: handleError_def Let_def)

lemma fetch_settle_failed:
  "thrown_value k r = Some thrown \<Longrightarrow>
   fetch_settle k now r s = Inr (handleError now thrown (fetcher_name k) s)"
  by (cases k)
     (auto simp: thrown_of_def fetchMetrics_settle_def fetchSalesData_settle_def
        fetchUserAnalytics_settle_def fetchPerformanceMetrics_settle_def try_catch_def
        split: sum.splits)

lemma fetch_settle_resolves: "\<exists>s'. fetch_settle k now r s = Inr s'"
  by (cases k)
     (auto simp: fetchMetrics_settle_def fetchSalesData_settle_def
        fetchUserAnalytics_settle_def fetchPerformanceMetrics_settle_def try_catch_def
        split: sum.splits)

text \<open>
  Claim C2. Whichever dataset is fetched and however its service call ends, the fetcher's
  promise resolves. When the call threw, the state the fetcher leaves holds an
  \<^verbatim>\<open>AppError\<close> with all four fields (the code \<^verbatim>\<open>DASHBOARD_ERROR\<close>, the message of
  the thrown \<^verbatim>\<open>Error\<close> or the default message, the fetcher's name with the thrown value
  as details, the time of the failure as timestamp), and \<^verbatim>\<open>isLoading\<close> is false.
\<close>

theorem fetch_never_rejects_and_stores_AppError:
  "\<exists>s'. fetchDataset k started settled r s = Inr s' \<and>
     (\<forall>thrown. thrown_value k r = Some thrown \<longrightarrow>
        error s' = Some \<lparr>code = ''DASHBOARD_ERROR'',
                         message = (case thrown of JError m \<Rightarrow> m
                                    | _ \<Rightarrow> ''An unexpected error occurred''),
                         details = Some (JObj [(''context'', JStr (fetcher_name k)),
                                               (''error'', thrown)]),
                         timestamp = settled\<rparr> \<and>
        \<not> isLoading (loading s'))"
proof (cases "thrown_value k r")
  case None
  then show ?thesis
    using fetch_settle_resolves [of k settled r "fst (fetch_begin k started s s)"]
    by (auto simp: fetchDataset_def)
next
  case (Some thrown)
  then show ?thesis
    by (simp add: fetchDataset_def fetch_settle_failed handleError_state)
qed

theorem fetch_never_rejects_and_stores_AppError_witness:
  "thrown_value MetricsKind sample_outcomes = Some (JError ''timeout of 10000ms exceeded'') \<and>
   (\<exists>s'. fetchDataset MetricsKind ''2024-01-01T00:00:00.000Z'' ''2024-01-01T00:00:10.000Z''
            sample_outcomes sample_state = Inr s' \<and>
          error s' = Some \<lparr>code = ''DASHBOARD_ERROR'', message = ''timeout of 10000ms exceeded'',
                           details = Some (JObj [(''context'', JStr ''fetchMetrics''),
                                                 (''error'', JError ''timeout of 10000ms exceeded'')]),
                           timestamp = ''2024-01-01T00:00:10.000Z''\<rparr> \<and>
          \<not> isLoading (loading s'))"
proof -
  have t: "thrown_value MetricsKind sample_outcomes = Some (JError ''timeout of 10000ms exceeded'')"
    by (simp add: sample_outcomes_def thrown_of_def)
  show ?thesis
    using t fetch_never_rejects_and_stores_AppError [of MetricsKind
        "''2024-01-01T00:00:00.000Z''" "''2024-01-01T00:00:10.000Z''" sample_outcomes sample_state]
    by auto
qed

lemma fetch_settle_settled_state: "fetch_settle k now r s = Inr (settled_state k now r s)"
  using fetch_settle_resolves [of k now r s] by (auto simp: settled_state_def)

lemma settle_all_foldl:
  "settle_all r schedule s = (foldl (\<lambda>a kn. settled_state (fst kn) (snd kn) r a) s schedule, [])"
  by (induction schedule arbitrary: s) (auto simp: fetch_settle_settled_state)

lemmas settle_defs =
  settled_state_def fetchMetrics_settle_def fetchSalesData_settle_def
  fetchUserAnalytics_settle_def fetchPerformanceMetrics_settle_def try_catch_def
  handleError_def Let_def

lemma metrics_settled_state:
  "metrics (settled_state k now r s) =
     (if k = MetricsKind
      then (case getMetrics_outcome r of Inr resp \<Rightarrow> resp_data resp | Inl thrown \<Rightarrow> metrics s)
      else metrics s)"
  by (cases k) (auto simp: settle_defs split: sum.splits)

lemma salesData_settled_state:
  "salesData (settled_state k now r s) =
     (if k = SalesKind
      then (case getSalesData_outcome r of Inr resp \<Rightarrow> resp_data resp | Inl thrown \<Rightarrow> salesData s)
      else salesData s)"
  by (cases k) (auto simp: settle_defs split: sum.splits)

lemma userAnalytics_settled_state:
  "userAnalytics (settled_state k now r s) =
     (if k = UserAnalyticsKind
      then (case getUserAnalytics_outcome r of Inr resp \<Rightarrow> resp_data resp
            | Inl thrown \<Rightarrow> userAnalytics s)
      else userAnalytics s)"
  by (cases k) (auto simp: settle_defs split: sum.splits)

lemma performanceMetrics_settled_state:
  "performanceMetrics (settled_state k now r s) =
     (if k = PerformanceKind
      then (case getPerformanceMetrics_outcome r of Inr resp \<Rightarrow> resp_data resp
            | Inl thrown \<Rightarrow> performanceMetrics s)
      else performanceMetrics s)"
  by (cases k) (auto simp: settle_defs split: sum.splits)

lemma isLoading_settled_state:
  "isLoading (loading (settled_state k now r s)) =
     (if k = MetricsKind \<or> thrown_value k r \<noteq> None then False else isLoading (loading s))"
  by (cases k) (auto simp: settle_defs thrown_of_def split: sum.splits)

lemma metrics_foldl:
  "metrics (foldl (\<lambda>a kn. settled_state (fst kn) (snd kn) r a) s schedule) =
     (if MetricsKind \<in> set (map fst schedule)
      then (case getMetrics_outcome r of Inr resp \<Rightarrow> resp_data resp | Inl thrown \<Rightarrow> metrics s)
      else metrics s)"
  by (induction schedule arbitrary: s) (auto simp: metrics_settled_state split: sum.splits)

lemma salesData_foldl:
  "salesData (foldl (\<lambda>a kn. settled_state (fst kn) (snd kn) r a) s schedule) =
     (if SalesKind \<in> set (map fst schedule)
      then (case getSalesData_outcome r of Inr resp \<Rightarrow> resp_data resp | Inl thrown \<Rightarrow> salesData s)
      else salesData s)"
  by (induction schedule arbitrary: s) (auto simp: salesData_settled_state split: sum.splits)

lemma userAnalytics_foldl:
  "userAnalytics (foldl (\<lambda>a kn. settled_state (fst kn) (snd kn) r a) s schedule) =
     (if UserAnalyticsKind \<in> set (map fst schedule)
      then (case getUserAnalytics_outcome r of Inr resp \<Rightarrow> resp_data resp
            | Inl thrown \<Rightarrow> userAnalytics s)
      else userAnalytics s)"
  by (induction schedule arbitrary: s) (auto simp: userAnalytics_settled_state split: sum.splits)

lemma performanceMetrics_foldl:
  "performanceMetrics (foldl (\<lambda>a kn. settled_state (fst kn) (snd kn) r a) s schedule) =
     (if PerformanceKind \<in> set (map fst schedule)
      then (case getPerformanceMetrics_outcome r of Inr resp \<Rightarrow> resp_data resp
            | Inl thrown \<Rightarrow> performanceMetrics s)
      else performanceMetrics s)"
  by (induction schedule arbitrary: s) (auto simp: performanceMetrics_settled_state split: sum.splits)

lemma isLoading_foldl:
  "\<not> isLoading (loading s) \<or> MetricsKind \<in> set (map fst schedule) \<Longrightarrow>
   \<not> isLoading (loading (foldl (\<lambda>a kn. settled_state (fst kn) (snd kn) r a) s schedule))"
proof (induction schedule arbitrary: s)
  case Nil
  then show ?case by simp
next
  case (Cons kn schedule)
  have "\<not> isLoading (loading (settled_state (fst kn) (snd kn) r s)) \<or>
        MetricsKind \<in> set (map fst schedule)"
    using Cons.prems by (auto simp: isLoading_settled_state)
  then show ?case
    using Cons.IH by simp
qed

lemma refreshAllData_begin_eq:
  "refreshAllData_begin now rendered s =
     (s\<lparr>loading := (loading s)\<lparr>isLoading := True\<rparr>\<rparr>,
      [GetMetrics, GetSalesData (filters rendered), GetUserAnalytics, GetPerformanceMetrics])"
  by (simp add: refreshAllData_begin_def fetchMetrics_begin_def fetchSalesData_begin_def
        fetchUserAnalytics_begin_def fetchPerformanceMetrics_begin_def)

text \<open>
  Claim C3. In a round where each of the four service calls ends once, in any order and
  each with any outcome: \<^verbatim>\<open>refreshAllData\<close> issued all four calls, its promise
  resolves, \<^verbatim>\<open>isLoading\<close> is false at the end, and each dataset is the data of its own
  call when that call succeeded and the previously stored data when it threw, whatever the
  other three calls did.
\<close>

theorem refreshAllData_settles_every_fetch:
  assumes "one_round schedule"
  shows "returned_promise (refreshAllData now rendered r schedule s) = Inr () \<and>
         calls_issued (refreshAllData now rendered r schedule s) =
           [GetMetrics, GetSalesData (filters rendered), GetUserAnalytics, GetPerformanceMetrics] \<and>
         \<not> isLoading (loading (final_state (refreshAllData now rendered r schedule s))) \<and>
         metrics (final_state (refreshAllData now rendered r schedule s)) =
           (case getMetrics_outcome r of Inr resp \<Rightarrow> resp_data resp | Inl thrown \<Rightarrow> metrics s) \<and>
         salesData (final_state (refreshAllData now rendered r schedule s)) =
           (case getSalesData_outcome r of Inr resp \<Rightarrow> resp_data resp | Inl thrown \<Rightarrow> salesData s) \<and>
         userAnalytics (final_state (refreshAllData now rendered r schedule s)) =
           (case getUserAnalytics_outcome r of Inr resp \<Rightarrow> resp_data resp
            | Inl thrown \<Rightarrow> userAnalytics s) \<and>
         performanceMetrics (final_state (refreshAllData now rendered r schedule s)) =
           (case getPerformanceMetrics_outcome r of Inr resp \<Rightarrow> resp_data resp
            | Inl thrown \<Rightarrow> performanceMetrics s)"
proof -
  let ?s0 = "s\<lparr>loading := (loading s)\<lparr>isLoading := True\<rparr>\<rparr>"
  let ?f = "foldl (\<lambda>a kn. settled_state (fst kn) (snd kn) r a) ?s0 schedule"
  have all: "MetricsKind \<in> set (map fst schedule)" "SalesKind \<in> set (map fst schedule)"
    "UserAnalyticsKind \<in> set (map fst schedule)" "PerformanceKind \<in> set (map fst schedule)"
    using assms by (simp_all add: one_round_def)
  have res: "refreshAllData now rendered r schedule s =
     \<lparr>final_state = ?f,
      calls_issued = [GetMetrics, GetSalesData (filters rendered), GetUserAnalytics,
                      GetPerformanceMetrics],
      returned_promise = Inr ()\<rparr>"
    by (simp add: refreshAllData_def refreshAllData_begin_eq settle_all_foldl promise_all_def)
  have l: "\<not> isLoading (loading ?f)"
    using all(1) isLoading_foldl by blast
  have m: "metrics ?f = (case getMetrics_outcome r of Inr resp \<Rightarrow> resp_data resp
                         | Inl thrown \<Rightarrow> metrics s)"
    using all(1) by (simp add: metrics_foldl split: sum.splits)
  have sa: "salesData ?f = (case getSalesData_outcome r of Inr resp \<Rightarrow> resp_data resp
                            | Inl thrown \<Rightarrow> salesData s)"
    using all(2) by (simp add: salesData_foldl split: sum.splits)
  have u: "userAnalytics ?f = (case getUserAnalytics_outcome r of Inr resp \<Rightarrow> resp_data resp
                               | Inl thrown \<Rightarrow> userAnalytics s)"
    using all(3) by (simp add: userAnalytics_foldl split: sum.splits)
  have pm: "performanceMetrics ?f = (case getPerformanceMetrics_outcome r of
                Inr resp \<Rightarrow> resp_data resp | Inl thrown \<Rightarrow> performanceMetrics s)"
    using all(4) by (simp add: performanceMetrics_foldl split: sum.splits)
  show ?thesis
    using l m sa u pm by (simp add: res)
qed

theorem refreshAllData_settles_every_fetch_witness:
  "one_round sample_schedule \<and>
   returned_promise (refreshAllData ''2024-01-01T00:00:02.000Z'' sample_state sample_outcomes
      sample_schedule sample_state) = Inr () \<and>
   \<not> isLoading (loading (final_state (refreshAllData ''2024-01-01T00:00:02.000Z'' sample_state
      sample_outcomes sample_schedule sample_state))) \<and>
   metrics (final_state (refreshAllData ''2024-01-01T00:00:02.000Z'' sample_state
      sample_outcomes sample_schedule sample_state)) = [] \<and>
   salesData (final_state (refreshAllData ''2024-01-01T00:00:02.000Z'' sample_state
      sample_outcomes sample_schedule sample_state)) = resp_data sample_sales"
proof -
  have round: "one_round sample_schedule"
    by (auto simp: one_round_def sample_schedule_def)
  show ?thesis
    using round refreshAllData_settles_every_fetch [OF round,
        of "''2024-01-01T00:00:02.000Z''" sample_state sample_outcomes sample_state]
    by (simp add: sample_outcomes_def sample_state_def initialState_def)
qed

lemma fetchMetrics_loads_and_stamps:
  "isLoading (loading (fst (fetch_begin MetricsKind started rendered s))) \<and>
   (getMetrics_outcome r = Inr resp \<longrightarrow>
      fetchDataset MetricsKind started settled r s =
        Inr (s\<lparr>metrics := resp_data resp,
               loading := \<lparr>isLoading = False, loading_error = None,
                           lastUpdated = Some settled\<rparr>\<rparr>))"
  by (simp add: fetchDataset_def fetchMetrics_begin_def fetchMetrics_settle_def try_catch_def)

text \<open>
  Claim C1 on the sales fetcher: \<^verbatim>\<open>fetchSalesData\<close> dispatches nothing before its
  service call, so \<^verbatim>\<open>isLoading\<close> stays false while the call runs, and on success
  \<open>SET_SALES_DATA\<close> replaces the sales dataset and leaves \<^verbatim>\<open>lastUpdated\<close> unset
  (\<^verbatim>\<open>fetchMetrics\<close> does both, see \<open>fetchMetrics_loads_and_stamps\<close>).
\<close>

theorem fetchSalesData_sets_no_loading_and_no_stamp:
  "\<not> isLoading (loading sample_state) \<and>
   lastUpdated (loading sample_state) = None \<and>
   \<not> isLoading (loading (fst (fetch_begin SalesKind ''2024-01-01T00:00:02.000Z''
        sample_state sample_state))) \<and>
   fetchDataset SalesKind ''2024-01-01T00:00:02.000Z'' ''2024-01-01T00:00:03.000Z''
       sample_outcomes sample_state
     = Inr (sample_state\<lparr>salesData := resp_data sample_sales\<rparr>) \<and>
   lastUpdated (loading (sample_state\<lparr>salesData := resp_data sample_sales\<rparr>)) = None"
  by (simp add: fetchDataset_def fetchSalesData_begin_def fetchSalesData_settle_def
        try_catch_def sample_outcomes_def sample_state_def initialState_def)

text \<open>
  Claim C5 on the sales request: after \<^verbatim>\<open>updateFilters({ category: "Electronics" })\<close>
  the fetcher passes filters with that category to \<^verbatim>\<open>getSalesData\<close>, and the request
  \<^verbatim>\<open>getSalesData\<close> sends has no parameters: the category is not part of it.
\<close>

theorem sales_request_carries_no_category:
  "category (filters sample_filtered_state) = Some ''Electronics'' \<and>
   snd (fetchSalesData_begin sample_filtered_state sample_filtered_state)
     = GetSalesData (filters sample_filtered_state) \<and>
   sales_request_of (snd (fetchSalesData_begin sample_filtered_state sample_filtered_state))
       None ''1704067202000''
     = Some \<lparr>http_method = ''get'', url = ''/posts'', params = [],
             headers = [(''Content-Type'', ''application/json''),
                        (''X-Request-ID'', ''get-/posts-1704067202000'')]\<rparr>"
  by (simp add: sample_filtered_state_def updateFilters_def sample_filter_update_def
        spread_filters_def sample_state_def initialState_def fetchSalesData_begin_def
        getSalesData_request_def request_interceptor_def apiClient_get_def Let_def)

section \<open>Properties of the revenue generator\<close>

lemma month_ordinal_new_Date: "99 < y \<Longrightarrow> month_ordinal (new_Date y m) = y * 12 + m"
  by (simp add: month_ordinal_def new_Date_def Let_def algebra_simps)

lemma monthIndex_new_Date: "0 \<le> monthIndex (new_Date y m) \<and> monthIndex (new_Date y m) < 12"
  by (simp add: new_Date_def Let_def)

lemma month_ordinal_iteration:
  "clock_month d \<Longrightarrow> month_ordinal (iteration_month d i) = month_ordinal d - i"
  by (simp add: iteration_month_def month_ordinal_new_Date clock_month_def)
     (simp add: month_ordinal_def)

lemma iteration_month_0: "clock_month d \<Longrightarrow> iteration_month d 0 = d"
  by (simp add: iteration_month_def new_Date_def clock_month_def Let_def)

lemma length_revenue_loop: "length (revenue_loop d rnd months n) = n"
  by (induction n) simp_all

lemma length_revenue_months: "length (revenue_months d n) = n"
  by (induction n) simp_all

lemma x_revenue_loop:
  "map point_x (revenue_loop d rnd months n) = map label_short (revenue_months d n)"
  by (induction n) (simp_all add: revenue_point_at_def Let_def)

lemma label_revenue_loop:
  "map point_label (revenue_loop d rnd months n) = map label_long (revenue_months d n)"
  by (induction n) (simp_all add: revenue_point_at_def Let_def)

lemma nth_revenue_months:
  "j < n \<Longrightarrow> revenue_months d n ! j = iteration_month d (int (n - 1 - j))"
proof (induction n arbitrary: j)
  case 0
  then show ?case by simp
next
  case (Suc n)
  show ?case
  proof (cases j)
    case 0
    then show ?thesis by simp
  next
    case (Suc j')
    then have "j' < n" using Suc.prems by simp
    then show ?thesis using Suc.IH [of j'] Suc by simp
  qed
qed

lemma ordinal_nth_revenue_months:
  assumes "clock_month d" and "j < n"
  shows "month_ordinal (revenue_months d n ! j) = month_ordinal d - (int n - 1) + int j"
proof -
  have "int (n - 1 - j) = int n - 1 - int j" using assms(2) by simp
  then show ?thesis
    using assms by (simp add: nth_revenue_months month_ordinal_iteration)
qed

lemma monthIndex_nth_revenue_months:
  "j < n \<Longrightarrow> 0 \<le> monthIndex (revenue_months d n ! j) \<and> monthIndex (revenue_months d n ! j) < 12"
  by (simp add: nth_revenue_months iteration_month_def monthIndex_new_Date)

lemma sorted_revenue_months:
  assumes "clock_month d"
  shows "sorted_wrt (\<lambda>a b. month_ordinal a < month_ordinal b) (revenue_months d n)"
  unfolding sorted_wrt_iff_nth_less
  using assms by (simp add: length_revenue_months ordinal_nth_revenue_months)

lemma last_revenue_months:
  assumes "clock_month d"
  shows "last (revenue_months d (Suc n)) = d"
proof -
  have ne: "revenue_months d (Suc n) \<noteq> []" by simp
  have "last (revenue_months d (Suc n)) = revenue_months d (Suc n) ! (length (revenue_months d (Suc n)) - 1)"
    using ne by (rule last_conv_nth)
  also have "\<dots> = revenue_months d (Suc n) ! n"
    by (simp only: length_revenue_months diff_Suc_1)
  also have "\<dots> = iteration_month d (int (Suc n - 1 - n))"
    by (rule nth_revenue_months) simp
  also have "\<dots> = d"
    using assms by (simp add: iteration_month_0)
  finally show ?thesis .
qed

lemma math_round_nonneg: "0 \<le> v \<Longrightarrow> 0 \<le> math_round v"
  by (simp add: math_round_def)

lemma point_y_nonneg:
  assumes "random_source rnd" and "i < months"
  shows "0 \<le> point_y (revenue_point_at d rnd months i)"
proof -
  let ?m = "monthIndex (iteration_month d i)"
  let ?sm = "1 + sin ((real_of_int ?m / 12) * 2 * pi) * 0.3"
  let ?rv = "0.8 + rnd (nat (months - i - 1)) * 0.4"
  let ?gt = "1 + real_of_int (months - i - 1) * 0.05"
  have "- 1 \<le> sin ((real_of_int ?m / 12) * 2 * pi)" by (rule sin_ge_minus_one)
  then have sm: "0 \<le> ?sm" by linarith
  have "0 \<le> rnd (nat (months - i - 1))" using assms(1) by (simp add: random_source_def)
  then have rv: "0 \<le> ?rv" by linarith
  have "0 \<le> real_of_int (months - i - 1)" using assms(2) by simp
  then have gt: "0 \<le> ?gt" by simp
  have "0 \<le> 50000 * ?sm * ?rv * ?gt"
    using sm rv gt by (intro mult_nonneg_nonneg) simp_all
  then show ?thesis
    by (simp add: revenue_point_at_def Let_def math_round_nonneg)
qed

lemma y_revenue_loop:
  "random_source rnd \<Longrightarrow> int n \<le> months \<Longrightarrow>
   \<forall>p \<in> set (revenue_loop d rnd months n). 0 \<le> point_y p"
  by (induction n) (simp_all add: point_y_nonneg)

text \<open>
  Claim C9. For a clock that reads a month of a year after 99 and random numbers from 0 up
  to but not including 1, \<^verbatim>\<open>generateRevenueData(12)\<close> returns 12 points; they are
  labelled by the 12 months the loop builds, which strictly increase on the calendar: the
  \<open>j\<close>-th is the month \<open>11 - j\<close> months before the current one, with a month index
  from 0 to 11 (the year changes where the index wraps), and the last is the current
  month. Every \<open>y\<close> is an integer that is not negative.
\<close>

theorem generateRevenueData_twelve_months:
  assumes "clock_month d" and "random_source rnd"
  shows "length (generateRevenueData d rnd 12) = 12 \<and>
         map point_x (generateRevenueData d rnd 12) = map label_short (revenue_months d 12) \<and>
         map point_label (generateRevenueData d rnd 12) = map label_long (revenue_months d 12) \<and>
         sorted_wrt (\<lambda>a b. month_ordinal a < month_ordinal b) (revenue_months d 12) \<and>
         (\<forall>j < 12. month_ordinal (revenue_months d 12 ! j) = month_ordinal d - 11 + int j \<and>
                   0 \<le> monthIndex (revenue_months d 12 ! j) \<and>
                   monthIndex (revenue_months d 12 ! j) < 12) \<and>
         last (revenue_months d 12) = d \<and>
         (\<forall>p \<in> set (generateRevenueData d rnd 12). 0 \<le> point_y p)"
proof -
  have n: "nat (12::int) = 12" by simp
  have len: "length (generateRevenueData d rnd 12) = 12"
    by (simp add: generateRevenueData_def length_revenue_loop)
  have xs: "map point_x (generateRevenueData d rnd 12) = map label_short (revenue_months d 12)"
    by (simp add: generateRevenueData_def x_revenue_loop)
  have ls: "map point_label (generateRevenueData d rnd 12) = map label_long (revenue_months d 12)"
    by (simp add: generateRevenueData_def label_revenue_loop)
  have srt: "sorted_wrt (\<lambda>a b. month_ordinal a < month_ordinal b) (revenue_months d 12)"
    using assms(1) by (rule sorted_revenue_months)
  have ord: "\<forall>j < 12. month_ordinal (revenue_months d 12 ! j) = month_ordinal d - 11 + int j \<and>
                   0 \<le> monthIndex (revenue_months d 12 ! j) \<and>
                   monthIndex (revenue_months d 12 ! j) < 12"
    using assms(1) by (simp add: ordinal_nth_revenue_months monthIndex_nth_revenue_months)
  have "last (revenue_months d (Suc 11)) = d"
    using assms(1) by (rule last_revenue_months)
  then have lst: "last (revenue_months d 12) = d" by simp
  have "\<forall>p \<in> set (revenue_loop d rnd 12 12). 0 \<le> point_y p"
    using assms(2) by (intro y_revenue_loop) simp_all
  then have ys: "\<forall>p \<in> set (generateRevenueData d rnd 12). 0 \<le> point_y p"
    by (simp add: generateRevenueData_def)
  show ?thesis
    using len xs ls srt ord lst ys by blast
qed

theorem generateRevenueData_twelve_months_witness:
  "clock_month sample_clock \<and> random_source sample_random \<and>
   length (generateRevenueData sample_clock sample_random 12) = 12 \<and>
   map point_x (generateRevenueData sample_clock sample_random 12) =
     [''Apr'', ''May'', ''Jun'', ''Jul'', ''Aug'', ''Sep'', ''Oct'', ''Nov'', ''Dec'',
      ''Jan'', ''Feb'', ''Mar''] \<and>
   map fullYear (revenue_months sample_clock 12) =
     [2023, 2023, 2023, 2023, 2023, 2023, 2023, 2023, 2023, 2024, 2024, 2024] \<and>
   last (revenue_months sample_clock 12) = sample_clock \<and>
   list_all (\<lambda>p. 0 \<le> point_y p) (generateRevenueData sample_clock sample_random 12)"
proof -
  have c: "clock_month sample_clock"
    by (simp add: clock_month_def sample_clock_def)
  have r: "random_source sample_random"
    by (simp add: random_source_def sample_random_def)
  have ms: "revenue_months sample_clock 12 =
     [\<lparr>fullYear = 2023, monthIndex = 3\<rparr>, \<lparr>fullYear = 2023, monthIndex = 4\<rparr>,
      \<lparr>fullYear = 2023, monthIndex = 5\<rparr>, \<lparr>fullYear = 2023, monthIndex = 6\<rparr>,
      \<lparr>fullYear = 2023, monthIndex = 7\<rparr>, \<lparr>fullYear = 2023, monthIndex = 8\<rparr>,
      \<lparr>fullYear = 2023, monthIndex = 9\<rparr>, \<lparr>fullYear = 2023, monthIndex = 10\<rparr>,
      \<lparr>fullYear = 2023, monthIndex = 11\<rparr>, \<lparr>fullYear = 2024, monthIndex = 0\<rparr>,
      \<lparr>fullYear = 2024, monthIndex = 1\<rparr>, \<lparr>fullYear = 2024, monthIndex = 2\<rparr>]"
    by (simp add: eval_nat_numeral iteration_month_def new_Date_def sample_clock_def Let_def)
  have xs: "map label_short (revenue_months sample_clock 12) =
     [''Apr'', ''May'', ''Jun'', ''Jul'', ''Aug'', ''Sep'', ''Oct'', ''Nov'', ''Dec'',
      ''Jan'', ''Feb'', ''Mar'']"
    unfolding ms by (simp add: label_short_def month_short_def eval_nat_numeral)
  have ys: "map fullYear (revenue_months sample_clock 12) =
     [2023, 2023, 2023, 2023, 2023, 2023, 2023, 2023, 2023, 2024, 2024, 2024]"
    unfolding ms by simp
  show ?thesis
    using c r xs ys generateRevenueData_twelve_months [OF c r] by (simp add: list_all_iff)
qed

end
